theory Spec2Isabelle
  imports Main "HOL-Library.Product_Lexorder"
begin

section \<open>Semantic tokens provider\<close>

subsection \<open>The token enumerations\<close>

text \<open>
  \<^verbatim>\<open>SemanticTokensProvider.TokenTypes\<close> and \<^verbatim>\<open>TokenModifiers\<close> are numeric
  TypeScript enums. A member is its number; indexing the enum object by a number gives the
  member's name back (the reverse mapping), and \<^verbatim>\<open>undefined\<close> where no member has that
  number. The member \<^verbatim>\<open>_\<close> is the loop bound of \<^verbatim>\<open>computeLegend\<close>.
\<close>

definition TokenTypes_comment :: nat where "TokenTypes_comment = 0"
definition TokenTypes_keyword :: nat where "TokenTypes_keyword = 1"
definition TokenTypes_string :: nat where "TokenTypes_string = 2"
definition TokenTypes_number :: nat where "TokenTypes_number = 3"
definition TokenTypes_type :: nat where "TokenTypes_type = 4"
definition TokenTypes_property :: nat where "TokenTypes_property = 5"
definition TokenTypes_parameter :: nat where "TokenTypes_parameter = 6"
definition TokenTypes_label :: nat where "TokenTypes_label = 7"
definition TokenTypes_constant :: nat where "TokenTypes_constant = 8"
definition TokenTypes_underscore :: nat where "TokenTypes_underscore = 16"

definition TokenModifiers_abstract :: nat where "TokenModifiers_abstract = 0"
definition TokenModifiers_deprecated :: nat where "TokenModifiers_deprecated = 1"
definition TokenModifiers_underscore :: nat where "TokenModifiers_underscore = 2"

lemmas TokenTypes_defs =
  TokenTypes_comment_def TokenTypes_keyword_def TokenTypes_string_def TokenTypes_number_def
  TokenTypes_type_def TokenTypes_property_def TokenTypes_parameter_def TokenTypes_label_def
  TokenTypes_constant_def TokenTypes_underscore_def

lemmas TokenModifiers_defs =
  TokenModifiers_abstract_def TokenModifiers_deprecated_def TokenModifiers_underscore_def

text \<open>\<^verbatim>\<open>TokenTypes[i]\<close>: the name of the member numbered \<open>i\<close>, \<open>None\<close> for \<^verbatim>\<open>undefined\<close>.\<close>

definition TokenTypes_name :: "nat \<Rightarrow> string option" where
  "TokenTypes_name i =
     (if i = TokenTypes_comment then Some ''comment''
      else if i = TokenTypes_keyword then Some ''keyword''
      else if i = TokenTypes_string then Some ''string''
      else if i = TokenTypes_number then Some ''number''
      else if i = TokenTypes_type then Some ''type''
      else if i = TokenTypes_property then Some ''property''
      else if i = TokenTypes_parameter then Some ''parameter''
      else if i = TokenTypes_label then Some ''label''
      else if i = TokenTypes_constant then Some ''constant''
      else if i = TokenTypes_underscore then Some ''_''
      else None)"

definition TokenModifiers_name :: "nat \<Rightarrow> string option" where
  "TokenModifiers_name i =
     (if i = TokenModifiers_abstract then Some ''abstract''
      else if i = TokenModifiers_deprecated then Some ''deprecated''
      else if i = TokenModifiers_underscore then Some ''_''
      else None)"

subsection \<open>Legend negotiation\<close>

record SemanticTokensClientCapabilities =
  cap_tokenTypes :: "string list"
  cap_tokenModifiers :: "string list"

record SemanticTokensLegend =
  tokenTypes :: "string list"
  tokenModifiers :: "string list"

text \<open>
  One pass of a loop of \<^verbatim>\<open>computeLegend\<close>: \<^verbatim>\<open>str = Enum[i]\<close>, pushed when the client's
  set has it. The client's set holds strings only, so it never has \<^verbatim>\<open>undefined\<close>.
\<close>

definition legend_step :: "(nat \<Rightarrow> string option) \<Rightarrow> string list \<Rightarrow> string list \<Rightarrow> nat \<Rightarrow> string list" where
  "legend_step names client acc i =
     (case names i of
        None \<Rightarrow> acc
      | Some str \<Rightarrow> if List.member client str then acc @ [str] else acc)"

text \<open>The loop \<^verbatim>\<open>for (let i = 0; i < bound; i++)\<close>.\<close>

definition legend_loop :: "(nat \<Rightarrow> string option) \<Rightarrow> nat \<Rightarrow> string list \<Rightarrow> string list" where
  "legend_loop names bound client = foldl (legend_step names client) [] [0..<bound]"

definition computeLegend :: "SemanticTokensClientCapabilities \<Rightarrow> SemanticTokensLegend" where
  "computeLegend capability =
     \<lparr> tokenTypes = legend_loop TokenTypes_name TokenTypes_underscore (cap_tokenTypes capability),
       tokenModifiers =
         legend_loop TokenModifiers_name TokenModifiers_underscore (cap_tokenModifiers capability) \<rparr>"

text \<open>The server's enumeration in its own order: the members below the bound \<^verbatim>\<open>_\<close>.\<close>

definition server_tokenTypes :: "string list" where
  "server_tokenTypes =
     [''comment'', ''keyword'', ''string'', ''number'', ''type'', ''property'', ''parameter'',
      ''label'', ''constant'']"

definition server_tokenModifiers :: "string list" where
  "server_tokenModifiers = [''abstract'', ''deprecated'']"

subsection \<open>Syntax tree\<close>

record Point =
  row :: nat
  column :: nat

text \<open>
  A node of the parsed tree as the provider reads it: \<^verbatim>\<open>type\<close>, \<^verbatim>\<open>startPosition\<close>,
  \<^verbatim>\<open>endPosition\<close>, \<^verbatim>\<open>text\<close> and the children the cursor walks, first to last.
  The text is a list of the string's code units, so its length is \<^verbatim>\<open>text.length\<close>.
\<close>

datatype SyntaxNode =
  SyntaxNode (nodeType: string) (startPosition: Point) (endPosition: Point) (nodeText: string)
    (children: "SyntaxNode list")

subsection \<open>The token builder\<close>

text \<open>One call \<^verbatim>\<open>builder.push(line, char, length, tokenType, tokenModifiers)\<close>.\<close>

record Token =
  tok_line :: nat
  tok_char :: nat
  tok_length :: nat
  tokenType :: nat
  tokenModifiers_bits :: nat

text \<open>
  The library's \<^verbatim>\<open>SemanticTokensBuilder\<close>, taken by what it does: it has an id (the clock
  reading of its last \<^verbatim>\<open>initialize\<close>, as a decimal string), the tokens pushed since then,
  and the data of the previous result when \<^verbatim>\<open>previousResult\<close> was given the current id.
  \<^verbatim>\<open>build\<close> forgets the previous data and returns the id with the tokens in the relative
  encoding of the protocol.
\<close>

record SemanticTokensBuilder =
  b_id :: string
  b_pushed :: "Token list"
  b_prevData :: "Token list option"

definition digit_char :: "nat \<Rightarrow> char" where
  "digit_char d = ''0123456789'' ! d"

fun toString :: "nat \<Rightarrow> string" where
  "toString n =
     (if n < 10 then [digit_char n]
      else toString (n div 10) @ [digit_char (n mod 10)])"

declare toString.simps [simp del]

definition initialize :: "nat \<Rightarrow> SemanticTokensBuilder \<Rightarrow> SemanticTokensBuilder" where
  "initialize now b = b\<lparr> b_id := toString now, b_pushed := [] \<rparr>"

definition new_SemanticTokensBuilder :: "nat \<Rightarrow> SemanticTokensBuilder" where
  "new_SemanticTokensBuilder now =
     initialize now \<lparr> b_id = [], b_pushed = [], b_prevData = None \<rparr>"

definition push :: "SemanticTokensBuilder \<Rightarrow> nat \<Rightarrow> nat \<Rightarrow> nat \<Rightarrow> nat \<Rightarrow> nat \<Rightarrow> SemanticTokensBuilder" where
  "push b line char len ty mods =
     b\<lparr> b_pushed := b_pushed b @
          [\<lparr> tok_line = line, tok_char = char, tok_length = len, tokenType = ty,
             tokenModifiers_bits = mods \<rparr>] \<rparr>"

definition previousResult :: "nat \<Rightarrow> string \<Rightarrow> SemanticTokensBuilder \<Rightarrow> SemanticTokensBuilder" where
  "previousResult now rid b =
     initialize now (if b_id b = rid then b\<lparr> b_prevData := Some (b_pushed b) \<rparr> else b)"

record SemanticTokens =
  resultId :: "string option"
  data :: "int list"

text \<open>
  The relative encoding: five numbers per token; the line is relative to the previous
  token's line, and the character to the previous token's character when both are on one
  line. The first token after \<^verbatim>\<open>initialize\<close> is absolute.
\<close>

fun encode_from :: "(nat \<times> nat) option \<Rightarrow> Token list \<Rightarrow> int list" where
  "encode_from prev [] = []"
| "encode_from prev (t # ts) =
     (let pushLine = (case prev of None \<Rightarrow> int (tok_line t)
                      | Some (prevLine, prevChar) \<Rightarrow> int (tok_line t) - int prevLine);
          pushChar = (case prev of None \<Rightarrow> int (tok_char t)
                      | Some (prevLine, prevChar) \<Rightarrow>
                          if pushLine = 0 then int (tok_char t) - int prevChar
                          else int (tok_char t))
      in [pushLine, pushChar, int (tok_length t), int (tokenType t), int (tokenModifiers_bits t)]
           @ encode_from (Some (tok_line t, tok_char t)) ts)"

definition build :: "SemanticTokensBuilder \<Rightarrow> SemanticTokens \<times> SemanticTokensBuilder" where
  "build b =
     (\<lparr> resultId = Some (b_id b), data = encode_from None (b_pushed b) \<rparr>,
      b\<lparr> b_prevData := None \<rparr>)"

subsection \<open>Building the tokens of a tree\<close>

text \<open>
  The chain of comparisons on \<^verbatim>\<open>node.type\<close> in \<^verbatim>\<open>traverse\<close>: the token type and the
  modifier argument of the \<^verbatim>\<open>push\<close> of the first branch that matches.
\<close>

definition classify :: "string \<Rightarrow> (nat \<times> nat) option" where
  "classify ty =
     (if ty = ''date'' then Some (TokenTypes_number, TokenModifiers_abstract)
      else if ty = ''txn'' then Some (TokenTypes_property, TokenModifiers_abstract)
      else if ty = ''account'' then Some (TokenTypes_type, TokenModifiers_abstract)
      else if ty = ''amount'' then Some (TokenTypes_number, TokenModifiers_abstract)
      else if ty = ''incomplete_amount'' then Some (TokenTypes_number, TokenModifiers_abstract)
      else if ty = ''currency'' then Some (TokenTypes_property, TokenModifiers_abstract)
      else if ty = ''key'' then Some (TokenTypes_label, TokenModifiers_abstract)
      else if ty = ''string'' then Some (TokenTypes_string, TokenModifiers_abstract)
      else if ty = ''tag'' then Some (TokenTypes_constant, TokenModifiers_abstract)
      else if ty = ''comment'' then Some (TokenTypes_comment, TokenModifiers_abstract)
      else None)"

text \<open>The first half of \<^verbatim>\<open>traverse\<close>: the push for the current node, if any.\<close>

definition visit :: "SyntaxNode \<Rightarrow> SemanticTokensBuilder \<Rightarrow> SemanticTokensBuilder" where
  "visit node builder =
     (case classify (nodeType node) of
        None \<Rightarrow> builder
      | Some (ty, mods) \<Rightarrow>
          push builder (row (startPosition node)) (column (startPosition node))
            (length (nodeText node)) ty mods)"

text \<open>
  The closure \<^verbatim>\<open>traverse\<close>: the current node, then the first child and every next
  sibling, each with the same closure, then back to the parent.
\<close>

fun traverse :: "SyntaxNode \<Rightarrow> SemanticTokensBuilder \<Rightarrow> SemanticTokensBuilder"
  and traverse_siblings :: "SyntaxNode list \<Rightarrow> SemanticTokensBuilder \<Rightarrow> SemanticTokensBuilder" where
  "traverse (SyntaxNode ty s e tx cs) builder =
     traverse_siblings cs (visit (SyntaxNode ty s e tx cs) builder)"
| "traverse_siblings [] builder = builder"
| "traverse_siblings (c # cs) builder = traverse_siblings cs (traverse c builder)"

text \<open>
  \<^verbatim>\<open>buildTokens\<close> takes the tree's cursor and defines the closure \<^verbatim>\<open>traverse\<close>; its body
  ends there, with no call of the closure, so the builder is left as it was.
\<close>

definition buildTokens :: "SemanticTokensBuilder \<Rightarrow> SyntaxNode \<Rightarrow> SemanticTokensBuilder" where
  "buildTokens builder tree =
     (let treeCursor = tree;
          traverse_closure = (\<lambda>u :: unit. traverse treeCursor builder)
      in builder)"

text \<open>
  What the closure pushes, as a list: the token of the node, when its type is in the
  chain, then the tokens of the children in order.
\<close>

definition node_tokens :: "SyntaxNode \<Rightarrow> Token list" where
  "node_tokens node =
     (case classify (nodeType node) of
        None \<Rightarrow> []
      | Some (ty, mods) \<Rightarrow>
          [\<lparr> tok_line = row (startPosition node), tok_char = column (startPosition node),
             tok_length = length (nodeText node), tokenType = ty, tokenModifiers_bits = mods \<rparr>])"

fun pushes :: "SyntaxNode \<Rightarrow> Token list" where
  "pushes (SyntaxNode ty s e tx cs) =
     node_tokens (SyntaxNode ty s e tx cs) @ concat (map pushes cs)"

subsection \<open>The request handlers\<close>

text \<open>
  \<^verbatim>\<open>forest.getByUri\<close> gives the tree of a document or \<^verbatim>\<open>undefined\<close>. The provider's
  state is its map \<^verbatim>\<open>tokenBuilders\<close>; a builder is an object of that map, so what a
  handler does to it is stored back under the document's uri. Each clock reading of a
  \<^verbatim>\<open>new SemanticTokensBuilder()\<close> or an \<^verbatim>\<open>initialize\<close> is an argument.
\<close>

type_synonym Forest = "string \<Rightarrow> SyntaxNode option"

type_synonym TokenBuilders = "string \<Rightarrow> SemanticTokensBuilder option"

definition getTokenBuilder :: "string \<Rightarrow> nat \<Rightarrow> TokenBuilders \<Rightarrow> SemanticTokensBuilder \<times> TokenBuilders" where
  "getTokenBuilder uri now tokenBuilders =
     (case tokenBuilders uri of
        Some result \<Rightarrow> (result, tokenBuilders)
      | None \<Rightarrow>
          (let result = new_SemanticTokensBuilder now
           in (result, tokenBuilders(uri \<mapsto> result))))"

definition handleSemantic :: "string \<Rightarrow> Forest \<Rightarrow> nat \<Rightarrow> TokenBuilders \<Rightarrow> SemanticTokens \<times> TokenBuilders" where
  "handleSemantic uri forest now tokenBuilders =
     (case forest uri of
        None \<Rightarrow> (\<lparr> resultId = None, data = [] \<rparr>, tokenBuilders)
      | Some tree \<Rightarrow>
          (let (builder, tbs) = getTokenBuilder uri now tokenBuilders;
               (result, builder') = build (buildTokens builder tree)
           in (result, tbs(uri \<mapsto> builder'))))"

text \<open>
  The delta handler reads the clock for a new builder (\<open>now\<close>) and again in the
  \<^verbatim>\<open>initialize\<close> of \<^verbatim>\<open>previousResult\<close> (\<open>now'\<close>). It ends with \<^verbatim>\<open>build\<close>, as the
  full handler does.
\<close>

definition handleSemanticDelta ::
  "string \<Rightarrow> string \<Rightarrow> Forest \<Rightarrow> nat \<Rightarrow> nat \<Rightarrow> TokenBuilders \<Rightarrow> SemanticTokens \<times> TokenBuilders" where
  "handleSemanticDelta uri previousResultId forest now now' tokenBuilders =
     (case forest uri of
        None \<Rightarrow> (\<lparr> resultId = None, data = [] \<rparr>, tokenBuilders)
      | Some tree \<Rightarrow>
          (let (builder, tbs) = getTokenBuilder uri now tokenBuilders;
               builder1 = previousResult now' previousResultId builder;
               (result, builder') = build (buildTokens builder1 tree)
           in (result, tbs(uri \<mapsto> builder'))))"

text \<open>
  What a delta request can be answered with in the protocol: a full result, or a delta
  with its list of edits. The handler is registered with \<^verbatim>\<open>semanticTokens.onDelta\<close> and
  its return type is \<^verbatim>\<open>SemanticTokens\<close>.
\<close>

datatype SemanticTokensEdit = SemanticTokensEdit nat nat "int list"

datatype DeltaResponse =
  FullTokens SemanticTokens
  | DeltaEdits "string option" "SemanticTokensEdit list"

fun edits_of :: "DeltaResponse \<Rightarrow> SemanticTokensEdit list option" where
  "edits_of (FullTokens r) = None"
| "edits_of (DeltaEdits rid es) = Some es"

definition onDelta ::
  "string \<Rightarrow> string \<Rightarrow> Forest \<Rightarrow> nat \<Rightarrow> nat \<Rightarrow> TokenBuilders \<Rightarrow> DeltaResponse \<times> TokenBuilders" where
  "onDelta uri previousResultId forest now now' tokenBuilders =
     (case handleSemanticDelta uri previousResultId forest now now' tokenBuilders of
        (result, tbs) \<Rightarrow> (FullTokens result, tbs))"

subsection \<open>A session of requests\<close>




text \<open>
  How the protocol reads the data of an answer: five numbers per token. The fourth is the
  index of the token's type in the legend and the fifth the bit set of its modifiers; the
  first two give the token's position, relative to the token before.
\<close>

fun wire_indices :: "int list \<Rightarrow> (int \<times> int) list" where
  "wire_indices (deltaLine # deltaChar # len # ty # mods # rest) = (ty, mods) # wire_indices rest"
| "wire_indices rest = []"

fun wire_positions_from :: "(int \<times> int) option \<Rightarrow> int list \<Rightarrow> (int \<times> int) list" where
  "wire_positions_from prev (deltaLine # deltaChar # len # ty # mods # rest) =
     (let line = (case prev of None \<Rightarrow> deltaLine | Some (prevLine, prevChar) \<Rightarrow> prevLine + deltaLine);
          char = (case prev of None \<Rightarrow> deltaChar
                  | Some (prevLine, prevChar) \<Rightarrow>
                      if deltaLine = 0 then prevChar + deltaChar else deltaChar)
      in (line, char) # wire_positions_from (Some (line, char)) rest)"
| "wire_positions_from prev rest = []"

section \<open>Diagnostics on save\<close>

subsection \<open>Splitting the validator's output\<close>

definition newline :: char where
  "newline = CHR 0x0A"

text \<open>
  \<^verbatim>\<open>text.split(sep)\<close> for a one-character separator: the pieces between the separators,
  one piece more than there are separators. With a limit, the first \<open>limit\<close> pieces are
  kept and the rest of the text is left out.
\<close>

fun split_on :: "char \<Rightarrow> string \<Rightarrow> string list" where
  "split_on sep [] = [[]]"
| "split_on sep (c # cs) =
     (if c = sep then [] # split_on sep cs
      else (case split_on sep cs of
              [] \<Rightarrow> [[c]]
            | w # ws \<Rightarrow> (c # w) # ws))"

definition js_split :: "char \<Rightarrow> nat \<Rightarrow> string \<Rightarrow> string list" where
  "js_split sep limit s = take limit (split_on sep s)"

text \<open>\<^verbatim>\<open>output[i]\<close>: the element, or \<^verbatim>\<open>undefined\<close> past the end.\<close>

definition at_index :: "'a list \<Rightarrow> nat \<Rightarrow> 'a option" where
  "at_index xs i = (if i < length xs then Some (xs ! i) else None)"

text \<open>
  The two arguments the handler gives \<^verbatim>\<open>provideDiagnostics\<close>:
  \<^verbatim>\<open>output = text.split('\n', 3)\<close>, \<^verbatim>\<open>errors = output[0]\<close>, \<^verbatim>\<open>flagged = output[1]\<close>.
\<close>

definition validator_sections :: "string \<Rightarrow> string option \<times> string option" where
  "validator_sections text =
     (let output = js_split newline 3 text
      in (at_index output 0, at_index output 1))"

subsection \<open>Entries and diagnostics\<close>

datatype SeverityClass = ErrorEntry | FlaggedEntry

record ValidatorEntry =
  entry_file :: string
  entry_line :: nat
  entry_class :: SeverityClass
  entry_message :: string

datatype DiagnosticSeverity = SeverityError | SeverityWarning

record Diagnostic =
  severity :: DiagnosticSeverity
  range_line :: int
  message :: string

text \<open>
  An object keyed by file path, as the list of its entries in the order the keys were
  first set; no key occurs twice.
\<close>

type_synonym DiagnosticGroup = "(string \<times> Diagnostic list) list"

definition is_digit :: "char \<Rightarrow> bool" where
  "is_digit c = (48 \<le> (of_char c :: nat) \<and> (of_char c :: nat) \<le> 57)"

definition parse_nat :: "string \<Rightarrow> nat" where
  "parse_nat ds = foldl (\<lambda>n c. 10 * n + ((of_char c :: nat) - 48)) 0 ds"

text \<open>
  Modelled from the spec: \<^verbatim>\<open>provideDiagnostics\<close> (module \<^verbatim>\<open>./diagnostics\<close>) is not among
  the sources. The spec: each line of a section has the form
  \<^verbatim>\<open><file>:<line>: <message>\<close>; a line of another form is dropped and never fails; an
  error entry gets the error severity and a flagged entry the warning severity; the
  diagnostic's range is zero-based and covers the reported line; diagnostics are appended
  to the list under the entry's file path, in input order; a file with no entry has no key.
\<close>

definition parse_entry :: "SeverityClass \<Rightarrow> string \<Rightarrow> ValidatorEntry option" where
  "parse_entry cls ln =
     (let file = takeWhile (\<lambda>c. c \<noteq> CHR '':'') ln;
          rest = dropWhile (\<lambda>c. c \<noteq> CHR '':'') ln
      in if file = [] then None
         else (case rest of
                 [] \<Rightarrow> None
               | colon # after \<Rightarrow>
                   (let ds = takeWhile is_digit after;
                        tl = dropWhile is_digit after
                    in if ds = [] then None
                       else (case tl of
                               c1 # c2 # msg \<Rightarrow>
                                 if c1 = CHR '':'' \<and> c2 = CHR '' ''
                                 then Some \<lparr> entry_file = file, entry_line = parse_nat ds,
                                             entry_class = cls, entry_message = msg \<rparr>
                                 else None
                             | _ \<Rightarrow> None))))"

definition parse_section :: "SeverityClass \<Rightarrow> string option \<Rightarrow> ValidatorEntry list" where
  "parse_section cls section =
     (case section of
        None \<Rightarrow> []
      | Some text \<Rightarrow> List.map_filter (parse_entry cls) (split_on newline text))"

definition to_diagnostic :: "ValidatorEntry \<Rightarrow> Diagnostic" where
  "to_diagnostic e =
     \<lparr> severity = (case entry_class e of ErrorEntry \<Rightarrow> SeverityError | FlaggedEntry \<Rightarrow> SeverityWarning),
       range_line = int (entry_line e) - 1,
       message = entry_message e \<rparr>"

fun add_diagnostic :: "string \<Rightarrow> Diagnostic \<Rightarrow> DiagnosticGroup \<Rightarrow> DiagnosticGroup" where
  "add_diagnostic file d [] = [(file, [d])]"
| "add_diagnostic file d ((k, ds) # g) =
     (if k = file then (k, ds @ [d]) # g else (k, ds) # add_diagnostic file d g)"

definition provideDiagnostics :: "string option \<Rightarrow> string option \<Rightarrow> DiagnosticGroup" where
  "provideDiagnostics errors flagged =
     foldl (\<lambda>g e. add_diagnostic (entry_file e) (to_diagnostic e) g) []
       (parse_section ErrorEntry errors @ parse_section FlaggedEntry flagged)"

subsection \<open>Publishing\<close>

text \<open>
  The functions of Node's \<^verbatim>\<open>path\<close> module the handler calls. The module is the
  platform's (POSIX or Windows), so it is an argument.
\<close>

record PathModule =
  path_join :: "string list \<Rightarrow> string"
  path_relative :: "string \<Rightarrow> string \<Rightarrow> string"
  path_dirname :: "string \<Rightarrow> string"
  path_basename :: "string \<Rightarrow> string"
  path_sep :: string

datatype Effect =
  SendDiagnostics string "Diagnostic list"
  | ConsoleError string

text \<open>
  \<^verbatim>\<open>Object.keys\<close>: the keys that are array indices (a decimal number below
  4294967295 written without a leading zero) come first, in ascending order of their
  numbers; the other keys follow in the order they were first set.
\<close>

definition is_array_index :: "string \<Rightarrow> bool" where
  "is_array_index k =
     (k \<noteq> [] \<and> list_all is_digit k \<and> (k = ''0'' \<or> hd k \<noteq> CHR ''0'') \<and>
      parse_nat k < 4294967295)"

definition Object_keys :: "DiagnosticGroup \<Rightarrow> string list" where
  "Object_keys diagnostics =
     (let keys = map fst diagnostics
      in sort_key parse_nat (filter is_array_index keys) @
         filter (\<lambda>k. \<not> is_array_index k) keys)"

text \<open>\<^verbatim>\<open>diagnostics[file]\<close>, for a key of the object.\<close>

definition lookup :: "DiagnosticGroup \<Rightarrow> string \<Rightarrow> Diagnostic list" where
  "lookup diagnostics file = (case map_of diagnostics file of None \<Rightarrow> [] | Some ds \<Rightarrow> ds)"

definition document_uri :: "PathModule \<Rightarrow> string \<Rightarrow> string \<Rightarrow> string" where
  "document_uri P rootBeancountFile file =
     (let relative_folder =
            path_relative P (path_dirname P rootBeancountFile) (path_dirname P file)
      in ''file://'' @ relative_folder @ path_sep P @ path_basename P file)"

text \<open>The loop \<^verbatim>\<open>for (const file of Object.keys(diagnostics))\<close>.\<close>

definition publish :: "PathModule \<Rightarrow> string \<Rightarrow> DiagnosticGroup \<Rightarrow> Effect list" where
  "publish P rootBeancountFile diagnostics =
     map (\<lambda>file. SendDiagnostics (document_uri P rootBeancountFile file) (lookup diagnostics file))
       (Object_keys diagnostics)"

text \<open>The callback given the validator's text; \<^verbatim>\<open>undefined\<close> and the empty text are falsy.\<close>

definition onValidatorOutput :: "PathModule \<Rightarrow> string \<Rightarrow> string option \<Rightarrow> Effect list" where
  "onValidatorOutput P rootBeancountFile text =
     (case text of
        None \<Rightarrow> []
      | Some t \<Rightarrow>
          if t = [] then []
          else (let (errors, flagged) = validator_sections t;
                    diagnostics = provideDiagnostics errors flagged
                in publish P rootBeancountFile diagnostics))"

text \<open>
  Modelled from the spec: \<^verbatim>\<open>runExternalCommand\<close> (module \<^verbatim>\<open>./utils\<close>) is not among the
  sources. The spec: the validator runs out of process; a spawn error, a non-zero exit or
  an error of its output stream is reported to the error channel and produces nothing
  else; otherwise the callback gets the combined standard output. What the process did
  is the first argument; the others are those of the call: the command, its arguments,
  the callback for the text, an argument the handler leaves \<^verbatim>\<open>undefined\<close>, and the
  callback for an error.
\<close>

datatype ProcessOutcome =
  SpawnError string
  | NonZeroExit string
  | StreamError string
  | Completed "string option"

definition runExternalCommand ::
  "ProcessOutcome \<Rightarrow> string \<Rightarrow> string list \<Rightarrow> (string option \<Rightarrow> Effect list) \<Rightarrow> string option \<Rightarrow>
     (string \<Rightarrow> Effect list) \<Rightarrow> Effect list" where
  "runExternalCommand outcome cmd args callback unused logger =
     (case outcome of
        SpawnError str \<Rightarrow> logger str
      | NonZeroExit str \<Rightarrow> logger str
      | StreamError str \<Rightarrow> logger str
      | Completed text \<Rightarrow> callback text)"

text \<open>
  The handler of a save: the validator script lies beside the server's own directory
  (\<^verbatim>\<open>__dirname\<close>, an argument) and is run on the root beancount file.
\<close>

definition onDidSaveTextDocument ::
  "PathModule \<Rightarrow> string \<Rightarrow> string \<Rightarrow> ProcessOutcome \<Rightarrow> Effect list" where
  "onDidSaveTextDocument P dirname rootBeancountFile outcome =
     (let beanCheckPy = path_join P [dirname, ''../python/bean_check.py''];
          pyArgs = [beanCheckPy, rootBeancountFile]
      in runExternalCommand outcome ''python'' pyArgs
           (onValidatorOutput P rootBeancountFile) None
           (\<lambda>str. [ConsoleError str]))"

fun failure_of :: "ProcessOutcome \<Rightarrow> string option" where
  "failure_of (SpawnError str) = Some str"
| "failure_of (NonZeroExit str) = Some str"
| "failure_of (StreamError str) = Some str"
| "failure_of (Completed text) = None"

fun no_output :: "ProcessOutcome \<Rightarrow> bool" where
  "no_output (Completed None) = True"
| "no_output (Completed (Some t)) = (t = [])"
| "no_output outcome = False"

fun is_publish :: "Effect \<Rightarrow> bool" where
  "is_publish (SendDiagnostics uri ds) = True"
| "is_publish (ConsoleError str) = False"

subsection \<open>POSIX paths\<close>

text \<open>
  The POSIX flavour of the module, for a process whose working directory is \<open>cwd\<close>.
  \<^verbatim>\<open>dirname\<close> and \<^verbatim>\<open>basename\<close> scan the path from its end; \<^verbatim>\<open>normalize\<close> drops empty
  segments and \<^verbatim>\<open>.\<close>, and takes back a segment at \<^verbatim>\<open>..\<close> (above the start of a relative
  path \<^verbatim>\<open>..\<close> is kept, above the root it is dropped); \<^verbatim>\<open>relative\<close> resolves both paths
  from the root, drops the segments they share, and goes up from the first by \<^verbatim>\<open>..\<close>
  and down into the second.
\<close>

fun dirname_scan :: "string \<Rightarrow> nat \<Rightarrow> bool \<Rightarrow> nat option" where
  "dirname_scan p 0 matchedSlash = None"
| "dirname_scan p (Suc i) matchedSlash =
     (if p ! Suc i = CHR ''/'' then
        (if \<not> matchedSlash then Some (Suc i) else dirname_scan p i matchedSlash)
      else dirname_scan p i False)"

definition posix_dirname :: "string \<Rightarrow> string" where
  "posix_dirname p =
     (if p = [] then ''.''
      else (let hasRoot = (hd p = CHR ''/'')
            in case dirname_scan p (length p - 1) True of
                 None \<Rightarrow> if hasRoot then ''/'' else ''.''
               | Some end \<Rightarrow> if hasRoot \<and> end = 1 then ''//'' else take end p))"

fun basename_scan :: "string \<Rightarrow> nat \<Rightarrow> nat option \<Rightarrow> bool \<Rightarrow> nat \<times> nat option" where
  "basename_scan p 0 end matchedSlash = (0, end)"
| "basename_scan p (Suc i) end matchedSlash =
     (if p ! i = CHR ''/'' then
        (if \<not> matchedSlash then (Suc i, end) else basename_scan p i end matchedSlash)
      else if end = None then basename_scan p i (Some (Suc i)) False
      else basename_scan p i end matchedSlash)"

definition posix_basename :: "string \<Rightarrow> string" where
  "posix_basename p =
     (case basename_scan p (length p) None True of
        (start, None) \<Rightarrow> []
      | (start, Some end) \<Rightarrow> drop start (take end p))"

fun normalize_segments :: "bool \<Rightarrow> string list \<Rightarrow> string list \<Rightarrow> string list" where
  "normalize_segments allowAboveRoot acc [] = acc"
| "normalize_segments allowAboveRoot acc (s # ss) =
     (if s = [] \<or> s = ''.'' then normalize_segments allowAboveRoot acc ss
      else if s = ''..'' then
        (if acc \<noteq> [] \<and> last acc \<noteq> ''..'' then normalize_segments allowAboveRoot (butlast acc) ss
         else if allowAboveRoot then normalize_segments allowAboveRoot (acc @ [''..'']) ss
         else normalize_segments allowAboveRoot acc ss)
      else normalize_segments allowAboveRoot (acc @ [s]) ss)"

fun join_segments :: "string list \<Rightarrow> string" where
  "join_segments [] = []"
| "join_segments [s] = s"
| "join_segments (s # ss) = s @ ''/'' @ join_segments ss"

definition posix_normalize :: "string \<Rightarrow> string" where
  "posix_normalize p =
     (if p = [] then ''.''
      else (let isAbsolute = (hd p = CHR ''/'');
                trailingSeparator = (last p = CHR ''/'');
                body = join_segments (normalize_segments (\<not> isAbsolute) [] (split_on CHR ''/'' p))
            in if body = [] then (if isAbsolute then ''/'' else if trailingSeparator then ''./'' else ''.'')
               else (if isAbsolute then ''/'' else []) @ body @
                    (if trailingSeparator then ''/'' else [])))"

definition posix_join :: "string list \<Rightarrow> string" where
  "posix_join args =
     (case filter (\<lambda>arg. arg \<noteq> []) args of
        [] \<Rightarrow> ''.''
      | parts \<Rightarrow> posix_normalize (join_segments parts))"

text \<open>The segments of a path resolved from the root; a relative path starts at \<open>cwd\<close>.\<close>

definition posix_resolve :: "string \<Rightarrow> string \<Rightarrow> string list" where
  "posix_resolve cwd p =
     normalize_segments False []
       (split_on CHR ''/'' (if p \<noteq> [] \<and> hd p = CHR ''/'' then p else cwd @ ''/'' @ p))"

fun strip_common :: "string list \<Rightarrow> string list \<Rightarrow> string list \<times> string list" where
  "strip_common (a # as) (b # bs) = (if a = b then strip_common as bs else (a # as, b # bs))"
| "strip_common as bs = (as, bs)"

definition posix_relative :: "string \<Rightarrow> string \<Rightarrow> string \<Rightarrow> string" where
  "posix_relative cwd from to =
     (case strip_common (posix_resolve cwd from) (posix_resolve cwd to) of
        (up, down) \<Rightarrow> join_segments (map (\<lambda>s. ''..'') up @ down))"

definition posix :: "string \<Rightarrow> PathModule" where
  "posix cwd =
     \<lparr> path_join = posix_join, path_relative = posix_relative cwd,
       path_dirname = posix_dirname, path_basename = posix_basename, path_sep = ''/'' \<rparr>"

section \<open>Example inputs\<close>


text \<open>
  A posting with an account and a currency but no number: the incomplete amount and its
  only child, the currency, start at the same column.
\<close>

definition example_posting :: SyntaxNode where
  "example_posting =
     SyntaxNode ''posting'' \<lparr> row = 1, column = 2 \<rparr> \<lparr> row = 1, column = 24 \<rparr>
       ''Assets:Cash        USD''
       [SyntaxNode ''account'' \<lparr> row = 1, column = 2 \<rparr> \<lparr> row = 1, column = 13 \<rparr>
          ''Assets:Cash'' [],
        SyntaxNode ''incomplete_amount'' \<lparr> row = 1, column = 21 \<rparr> \<lparr> row = 1, column = 24 \<rparr>
          ''USD''
          [SyntaxNode ''currency'' \<lparr> row = 1, column = 21 \<rparr> \<lparr> row = 1, column = 24 \<rparr>
             ''USD'' []]]"

definition example_uri :: string where
  "example_uri = ''file:///ledger/main.bean''"

definition example_forest :: Forest where
  "example_forest = [example_uri \<mapsto> example_posting]"

text \<open>
  Two full requests for a document, then a delta request that names the result id of the
  second: the answer to the delta request.
\<close>

definition encode_twice_then_delta ::
  "string \<Rightarrow> Forest \<Rightarrow> nat \<Rightarrow> nat \<Rightarrow> nat \<Rightarrow> nat \<Rightarrow> TokenBuilders \<Rightarrow> DeltaResponse" where
  "encode_twice_then_delta uri forest t1 t2 t3 t4 tokenBuilders =
     (let (r1, tbs1) = handleSemantic uri forest t1 tokenBuilders;
          (r2, tbs2) = handleSemantic uri forest t2 tbs1;
          previousResultId = (case resultId r2 of None \<Rightarrow> [] | Some rid \<Rightarrow> rid)
      in fst (onDelta uri previousResultId forest t3 t4 tbs2))"

text \<open>The validator output of the spec's example, and one with the entries on the first two lines.\<close>

definition spec_example_text :: string where
  "spec_example_text =
     ''2 errors found'' @ [newline, newline] @ ''/a/b.bean:10: Unbalanced entry'' @ [newline] @
     ''/a/b.bean:12: Missing account'' @ [newline]"

definition two_line_text :: string where
  "two_line_text =
     ''/a/b.bean:10: Unbalanced entry'' @ [newline] @ ''/a/b.bean:12: Missing account'' @ [newline]"

text \<open>A validator output whose two lines are about two files of one ledger.\<close>

definition example_save_text :: string where
  "example_save_text =
     ''/home/u/ledger/sub/a.bean:10: Unbalanced entry'' @ [newline] @
     ''/home/u/ledger/main.bean:12: Missing account'' @ [newline]"

section \<open>Properties of the legend\<close>

lemma upt16: "[0..<16] = [0,1,2,3,4,5,6,7,8,9,10,11,12,13,14,15::nat]"
  by (simp add: upt_rec)

lemma upt2: "[0..<2] = [0,1::nat]"
  by (simp add: upt_rec)

lemma upt4: "[0..<4] = [0,1,2,3::nat]"
  by (simp add: upt_rec)

lemma foldl_legend_step:
  "foldl (legend_step names client) acc is =
     acc @ filter (\<lambda>s. s \<in> set client) (List.map_filter names is)"
  by (induction "is" arbitrary: acc)
     (simp_all add: legend_step_def split: option.splits)

lemma legend_loop_filter:
  "legend_loop names bound client =
     filter (\<lambda>s. s \<in> set client) (List.map_filter names [0..<bound])"
  by (simp add: legend_loop_def foldl_legend_step)

lemma TokenTypes_enumeration:
  "List.map_filter TokenTypes_name [0..<TokenTypes_underscore] = server_tokenTypes"
  unfolding TokenTypes_underscore_def upt16
  by (simp add: TokenTypes_name_def TokenTypes_defs server_tokenTypes_def)

lemma TokenModifiers_enumeration:
  "List.map_filter TokenModifiers_name [0..<TokenModifiers_underscore] = server_tokenModifiers"
  unfolding TokenModifiers_underscore_def upt2
  by (simp add: TokenModifiers_name_def TokenModifiers_defs
      server_tokenModifiers_def)

text \<open>
  C3. The server's enumeration is the list of the members of each enum below its bound, in
  the order of their numbers. For every client capability, the legend's token types are
  the names of the server's enumeration that the client's list has, in the server's order,
  and so are the token modifiers: as sets, the intersection of the server's names and the
  client's. A client that supports string, number and comment gets comment, string, number,
  from the server's enumeration and also from the loop run on an enumeration of comment,
  keyword, string, number alone.
\<close>

theorem computeLegend_intersection:
  "server_tokenTypes = List.map_filter TokenTypes_name [0..<TokenTypes_underscore] \<and>
   server_tokenModifiers = List.map_filter TokenModifiers_name [0..<TokenModifiers_underscore] \<and>
   tokenTypes (computeLegend capability) =
     filter (\<lambda>s. s \<in> set (cap_tokenTypes capability)) server_tokenTypes \<and>
   tokenModifiers (computeLegend capability) =
     filter (\<lambda>s. s \<in> set (cap_tokenModifiers capability)) server_tokenModifiers \<and>
   set (tokenTypes (computeLegend capability)) =
     set server_tokenTypes \<inter> set (cap_tokenTypes capability) \<and>
   set (tokenModifiers (computeLegend capability)) =
     set server_tokenModifiers \<inter> set (cap_tokenModifiers capability) \<and>
   tokenTypes (computeLegend
       \<lparr> cap_tokenTypes = [''string'', ''number'', ''comment''], cap_tokenModifiers = [] \<rparr>) =
     [''comment'', ''string'', ''number''] \<and>
   legend_loop (at_index [''comment'', ''keyword'', ''string'', ''number'']) 4
       [''string'', ''number'', ''comment''] =
     [''comment'', ''string'', ''number'']"
proof -
  have four: "legend_loop (at_index [''comment'', ''keyword'', ''string'', ''number'']) 4
       [''string'', ''number'', ''comment''] =
     [''comment'', ''string'', ''number'']"
    by (simp add: legend_loop_filter upt4 at_index_def)
  have types: "tokenTypes (computeLegend c) =
      filter (\<lambda>s. s \<in> set (cap_tokenTypes c)) server_tokenTypes" for c
    by (simp add: computeLegend_def legend_loop_filter TokenTypes_enumeration)
  have mods: "tokenModifiers (computeLegend c) =
      filter (\<lambda>s. s \<in> set (cap_tokenModifiers c)) server_tokenModifiers" for c
    by (simp add: computeLegend_def legend_loop_filter TokenModifiers_enumeration)
  have ex: "tokenTypes (computeLegend
       \<lparr> cap_tokenTypes = [''string'', ''number'', ''comment''], cap_tokenModifiers = [] \<rparr>) =
     [''comment'', ''string'', ''number'']"
    by (simp add: types server_tokenTypes_def)
  have s1: "set (tokenTypes (computeLegend capability)) =
     set server_tokenTypes \<inter> set (cap_tokenTypes capability)"
    unfolding types by auto
  have s2: "set (tokenModifiers (computeLegend capability)) =
     set server_tokenModifiers \<inter> set (cap_tokenModifiers capability)"
    unfolding mods by auto
  show ?thesis
    using types mods ex s1 s2 four TokenTypes_enumeration TokenModifiers_enumeration by simp
qed

section \<open>Properties of the traversal\<close>

text \<open>
  What \<^verbatim>\<open>traverse\<close> does to a builder: it appends the tokens of the node and of its
  descendants, parents first and siblings left to right, and changes nothing else.
\<close>

lemma visit_pushed: "visit n b = b\<lparr> b_pushed := b_pushed b @ node_tokens n \<rparr>"
  by (simp add: visit_def node_tokens_def push_def split: option.splits prod.splits)

lemma traverse_pushed:
  "traverse n b = b\<lparr> b_pushed := b_pushed b @ pushes n \<rparr>"
  "traverse_siblings cs b = b\<lparr> b_pushed := b_pushed b @ concat (map pushes cs) \<rparr>"
  by (induction n b and cs b rule: traverse_traverse_siblings.induct)
     (simp_all add: visit_pushed)

lemma new_pushes:
  "drop (length (b_pushed b)) (b_pushed (traverse n b)) = pushes n"
  by (simp add: traverse_pushed)

lemma node_tokens_cases:
  "t \<in> set (node_tokens n) \<Longrightarrow> tokenModifiers_bits t = TokenModifiers_abstract"
  by (auto simp: node_tokens_def classify_def split: if_splits)

lemma pushes_modifier:
  "t \<in> set (pushes n) \<Longrightarrow> tokenModifiers_bits t = TokenModifiers_abstract"
  by (induction n) (auto dest: node_tokens_cases)

lemma traverse_posting:
  "b_pushed (traverse example_posting (new_SemanticTokensBuilder 0)) =
     [\<lparr> tok_line = 1, tok_char = 2, tok_length = 11, tokenType = 4, tokenModifiers_bits = 0 \<rparr>,
      \<lparr> tok_line = 1, tok_char = 21, tok_length = 3, tokenType = 3, tokenModifiers_bits = 0 \<rparr>,
      \<lparr> tok_line = 1, tok_char = 21, tok_length = 3, tokenType = 5, tokenModifiers_bits = 0 \<rparr>]"
  by (simp add: example_posting_def new_SemanticTokensBuilder_def initialize_def visit_def
      classify_def push_def TokenTypes_defs TokenModifiers_defs)

lemma ts: "toString 1 = ''1''" "toString 4 = ''4''" "toString 0 = ''0''" "toString 7 = ''7''"
  by (simp_all add: toString.simps digit_char_def)

lemma buildTokens_unchanged: "buildTokens builder tree = builder"
  by (simp add: buildTokens_def Let_def)

text \<open>
  C1. The claim: a full encode of a document emits a token at every node whose type is in
  the chain, and none for another node, whose children are visited all the same. The
  closure does that: on the example posting it pushes the account, the incomplete amount
  and the currency, and nothing for the posting itself. But \<^verbatim>\<open>buildTokens\<close> never
  calls the closure: it leaves every builder as it was, and the full request for the
  document of the example posting is answered with no data.
\<close>

theorem buildTokens_never_traverses:
  "buildTokens builder tree = builder \<and>
   fst (handleSemantic example_uri example_forest 7 Map.empty) =
     \<lparr> resultId = Some ''7'', data = [] \<rparr> \<and>
   b_pushed (traverse example_posting (new_SemanticTokensBuilder 7)) =
     [\<lparr> tok_line = 1, tok_char = 2, tok_length = 11, tokenType = TokenTypes_type,
        tokenModifiers_bits = TokenModifiers_abstract \<rparr>,
      \<lparr> tok_line = 1, tok_char = 21, tok_length = 3, tokenType = TokenTypes_number,
        tokenModifiers_bits = TokenModifiers_abstract \<rparr>,
      \<lparr> tok_line = 1, tok_char = 21, tok_length = 3, tokenType = TokenTypes_property,
        tokenModifiers_bits = TokenModifiers_abstract \<rparr>]"
  by (simp add: buildTokens_unchanged handleSemantic_def example_forest_def getTokenBuilder_def
      new_SemanticTokensBuilder_def initialize_def build_def ts Let_def
      example_posting_def visit_def classify_def push_def)

text \<open>
  C10. Every token the traversal pushes has the modifier argument
  \<^verbatim>\<open>TokenModifiers.abstract\<close>, the number 0, whatever the type of its node.
\<close>

theorem traverse_modifier_abstract:
  "\<forall>t \<in> set (drop (length (b_pushed b)) (b_pushed (traverse node b))).
     tokenModifiers_bits t = TokenModifiers_abstract \<and> tokenModifiers_bits t = 0"
  using pushes_modifier by (auto simp: new_pushes TokenModifiers_abstract_def)

text \<open>
  Witness of C10: the three tokens of the example posting.
\<close>

theorem traverse_modifier_abstract_witness:
  "map tokenModifiers_bits (b_pushed (traverse example_posting (new_SemanticTokensBuilder 0))) =
     [0, 0, 0]"
  using traverse_modifier_abstract [of "new_SemanticTokensBuilder 0" example_posting]
  by (simp add: traverse_posting)

section \<open>Properties of the request handlers\<close>

lemma handleSemanticDelta_result:
  "forest uri = Some tree \<Longrightarrow>
     fst (handleSemanticDelta uri prev forest now now' tbs) =
       \<lparr> resultId = Some (toString now'),
         data = encode_from None (b_pushed (buildTokens (new_SemanticTokensBuilder now') tree)) \<rparr>"
  by (simp add: handleSemanticDelta_def getTokenBuilder_def previousResult_def Let_def
      build_def buildTokens_unchanged initialize_def new_SemanticTokensBuilder_def
      split: option.splits)

lemma handleSemantic_fresh:
  "forest uri = Some tree \<Longrightarrow>
     fst (handleSemantic uri forest now Map.empty) =
       \<lparr> resultId = Some (toString now),
         data = encode_from None (b_pushed (buildTokens (new_SemanticTokensBuilder now) tree)) \<rparr>"
  by (simp add: handleSemantic_def getTokenBuilder_def Let_def
      build_def buildTokens_unchanged initialize_def new_SemanticTokensBuilder_def)

text \<open>
  C6. When the forest has no tree for the document, the full and the delta handler both
  return a result with no data and no result id, and leave the builders as they were; no
  branch of either handler fails. When there is a tree, the delta handler returns, for
  every previous result id (so also for one no builder has), a full result: the one a full
  request to a provider with no builder yet would get at the same clock reading.
\<close>

theorem handlers_missing_state:
  "(forest uri = None \<longrightarrow>
      handleSemantic uri forest now tbs = (\<lparr> resultId = None, data = [] \<rparr>, tbs) \<and>
      handleSemanticDelta uri prev forest now now' tbs = (\<lparr> resultId = None, data = [] \<rparr>, tbs)) \<and>
   (forest uri \<noteq> None \<longrightarrow>
      fst (handleSemanticDelta uri prev forest now now' tbs) =
        fst (handleSemantic uri forest now' Map.empty) \<and>
      resultId (fst (handleSemanticDelta uri prev forest now now' tbs)) = Some (toString now'))"
proof (cases "forest uri")
  case None
  then show ?thesis by (simp add: handleSemantic_def handleSemanticDelta_def)
next
  case (Some tree)
  then show ?thesis
    by (simp add: handleSemanticDelta_result handleSemantic_fresh)
qed

text \<open>
  Witness of C6: a forest with no tree, and the example forest with a previous result id
  that no builder has.
\<close>

theorem handlers_missing_state_witness:
  "Map.empty example_uri = (None :: SyntaxNode option) \<and>
   handleSemantic example_uri Map.empty 1 Map.empty = (\<lparr> resultId = None, data = [] \<rparr>, Map.empty) \<and>
   handleSemanticDelta example_uri ''0'' Map.empty 1 4 Map.empty =
     (\<lparr> resultId = None, data = [] \<rparr>, Map.empty) \<and>
   example_forest example_uri \<noteq> None \<and>
   fst (handleSemanticDelta example_uri ''0'' example_forest 1 4 Map.empty) =
     \<lparr> resultId = Some ''4'', data = [] \<rparr>"
  using handlers_missing_state [of Map.empty example_uri 1 Map.empty "''0''" 4]
    handlers_missing_state [of example_forest example_uri 1 Map.empty "''0''" 4]
  by (simp add: example_forest_def handleSemantic_fresh buildTokens_unchanged
      new_SemanticTokensBuilder_def initialize_def ts)

text \<open>
  Counterexample to C7 as stated: after two full requests for the example document, the
  delta request that names the second result id is answered with a full result, not with
  a list of edits.
\<close>

theorem delta_is_full_counterexample:
  "encode_twice_then_delta example_uri example_forest 1 2 3 4 Map.empty =
     FullTokens \<lparr> resultId = Some ''4'', data = [] \<rparr> \<and>
   edits_of (encode_twice_then_delta example_uri example_forest 1 2 3 4 Map.empty) \<noteq> Some []"
  by (simp add: encode_twice_then_delta_def onDelta_def handleSemantic_def
      handleSemanticDelta_def getTokenBuilder_def previousResult_def build_def buildTokens_unchanged
      initialize_def new_SemanticTokensBuilder_def example_forest_def ts Let_def)

text \<open>
  C7, amended. For every document that has a tree, after two full requests with no edit
  between them, the delta request that names the second result id is answered with a
  full result under a new result id (the one a full request to a provider with no builder
  yet would get at that clock reading) and with no list of edits.
\<close>

theorem delta_after_two_encodes:
  "forest uri = Some tree \<Longrightarrow>
     encode_twice_then_delta uri forest t1 t2 t3 t4 tbs =
       FullTokens (fst (handleSemantic uri forest t4 Map.empty)) \<and>
     edits_of (encode_twice_then_delta uri forest t1 t2 t3 t4 tbs) = None"
  by (simp add: encode_twice_then_delta_def onDelta_def Let_def split_def
      handleSemanticDelta_result handleSemantic_fresh)

text \<open>
  Witness of C7, amended: the example document.
\<close>

theorem delta_after_two_encodes_witness:
  "example_forest example_uri = Some example_posting \<and>
   encode_twice_then_delta example_uri example_forest 1 2 3 4 Map.empty =
     FullTokens \<lparr> resultId = Some ''4'', data = [] \<rparr>"
  using delta_after_two_encodes [of example_forest example_uri example_posting 1 2 3 4 Map.empty]
  by (simp add: example_forest_def handleSemantic_fresh buildTokens_unchanged
      new_SemanticTokensBuilder_def initialize_def ts)

section \<open>Properties of a session\<close>

text \<open>
  The decoding of the data is the inverse of the builder's encoding: it gives back the
  types, the modifiers and the positions of the tokens that were pushed.
\<close>

lemma wire_indices_encode:
  "wire_indices (encode_from prev ts) =
     map (\<lambda>t. (int (tokenType t), int (tokenModifiers_bits t))) ts"
  by (induction ts arbitrary: prev) (simp_all add: Let_def)

lemma wire_positions_encode:
  "wire_positions_from (map_option (\<lambda>(l, c). (int l, int c)) prev) (encode_from prev ts) =
     map (\<lambda>t. (int (tok_line t), int (tok_char t))) ts"
proof (induction ts arbitrary: prev)
  case Nil
  then show ?case by simp
next
  case (Cons t ts)
  have step: "wire_positions_from (Some (int (tok_line t), int (tok_char t)))
        (encode_from (Some (tok_line t, tok_char t)) ts) =
      map (\<lambda>t. (int (tok_line t), int (tok_char t))) ts"
    using Cons.IH [of "Some (tok_line t, tok_char t)"] by simp
  show ?case
    using step by (cases prev) (auto simp: Let_def)
qed







section \<open>Properties of the diagnostics on save\<close>

lemma split_example:
  "split_on newline spec_example_text =
     [''2 errors found'', [], ''/a/b.bean:10: Unbalanced entry'', ''/a/b.bean:12: Missing account'', []]"
  by (simp add: spec_example_text_def newline_def)

lemma sections_example:
  "validator_sections spec_example_text = (Some ''2 errors found'', Some [])"
  by (simp add: validator_sections_def js_split_def at_index_def split_example)

lemma provide_example:
  "provideDiagnostics (Some ''2 errors found'') (Some []) = []"
  by (simp add: provideDiagnostics_def parse_section_def newline_def parse_entry_def)

lemma at_index_take: "i < n \<Longrightarrow> at_index (take n xs) i = at_index xs i"
  unfolding at_index_def by (cases "i < length xs") simp_all

lemma split_two:
  "split_on newline two_line_text =
     [''/a/b.bean:10: Unbalanced entry'', ''/a/b.bean:12: Missing account'', []]"
  by (simp add: two_line_text_def newline_def)

lemma pe1: "parse_entry cls ''/a/b.bean:10: Unbalanced entry'' =
   Some \<lparr> entry_file = ''/a/b.bean'', entry_line = 10, entry_class = cls,
          entry_message = ''Unbalanced entry'' \<rparr>"
  by (simp add: parse_entry_def is_digit_def parse_nat_def)

lemma pe2: "parse_entry cls ''/a/b.bean:12: Missing account'' =
   Some \<lparr> entry_file = ''/a/b.bean'', entry_line = 12, entry_class = cls,
          entry_message = ''Missing account'' \<rparr>"
  by (simp add: parse_entry_def is_digit_def parse_nat_def)

lemma vs_general:
  "validator_sections t = (at_index (split_on newline t) 0, at_index (split_on newline t) 1)"
  by (simp add: validator_sections_def js_split_def at_index_take)

lemma vs_two:
  "validator_sections two_line_text =
     (Some ''/a/b.bean:10: Unbalanced entry'', Some ''/a/b.bean:12: Missing account'')"
  by (simp add: vs_general split_two at_index_def)

lemma ps_a:
  "parse_section cls (Some ''/a/b.bean:10: Unbalanced entry'') =
     [\<lparr> entry_file = ''/a/b.bean'', entry_line = 10, entry_class = cls,
        entry_message = ''Unbalanced entry'' \<rparr>]"
  by (simp add: parse_section_def newline_def pe1)

lemma ps_b:
  "parse_section cls (Some ''/a/b.bean:12: Missing account'') =
     [\<lparr> entry_file = ''/a/b.bean'', entry_line = 12, entry_class = cls,
        entry_message = ''Missing account'' \<rparr>]"
  by (simp add: parse_section_def newline_def pe2)

lemma provide_two:
  "provideDiagnostics (Some ''/a/b.bean:10: Unbalanced entry'')
       (Some ''/a/b.bean:12: Missing account'') =
     [(''/a/b.bean'',
       [\<lparr> severity = SeverityError, range_line = 9, message = ''Unbalanced entry'' \<rparr>,
        \<lparr> severity = SeverityWarning, range_line = 11, message = ''Missing account'' \<rparr>])]"
  by (simp add: provideDiagnostics_def ps_a ps_b to_diagnostic_def)

text \<open>
  Counterexample to C2 as stated: of the spec's example text the handler passes on the
  first line as the errors and the empty second line as the flagged entries; the two lines
  with the entries are left out, so there is no diagnostic and nothing is published.
\<close>

theorem spec_example_counterexample:
  "validator_sections spec_example_text = (Some ''2 errors found'', Some []) \<and>
   provideDiagnostics (Some ''2 errors found'') (Some []) = [] \<and>
   onValidatorOutput (posix ''/'') ''/a/main.bean'' (Some spec_example_text) = []"
proof -
  have "spec_example_text \<noteq> []" by (simp add: spec_example_text_def)
  then show ?thesis
    by (simp add: sections_example provide_example onValidatorOutput_def publish_def
        Object_keys_def)
qed

text \<open>
  C2, amended. The two sections are the first two lines of the validator's output,
  whatever follows them. For the spec's example text they are the line
  \<^verbatim>\<open>2 errors found\<close> and the empty line, and no diagnostic results. When the two
  entries are the first two lines, the first is an error entry and the second a flagged
  entry, and they are grouped under the one file \<^verbatim>\<open>/a/b.bean\<close> with two diagnostics in
  that order, for the lines 10 and 12 (zero-based 9 and 11).
\<close>

theorem validator_sections_first_two_lines:
  "validator_sections out =
     (at_index (split_on newline out) 0, at_index (split_on newline out) 1) \<and>
   validator_sections spec_example_text = (Some ''2 errors found'', Some []) \<and>
   provideDiagnostics (Some ''2 errors found'') (Some []) = [] \<and>
   validator_sections two_line_text =
     (Some ''/a/b.bean:10: Unbalanced entry'', Some ''/a/b.bean:12: Missing account'') \<and>
   provideDiagnostics (Some ''/a/b.bean:10: Unbalanced entry'')
       (Some ''/a/b.bean:12: Missing account'') =
     [(''/a/b.bean'',
       [\<lparr> severity = SeverityError, range_line = 9, message = ''Unbalanced entry'' \<rparr>,
        \<lparr> severity = SeverityWarning, range_line = 11, message = ''Missing account'' \<rparr>])]"
  using vs_general [of out] vs_two provide_two sections_example provide_example
  by (simp only: simp_thms)

text \<open>
  The keys of a group: each key once, and all of them; in the order they were set when
  none is an array index, and with the array indices first otherwise.
\<close>

lemma Object_keys_set: "set (Object_keys g) = fst ` set g"
  by (auto simp: Object_keys_def Let_def)

lemma Object_keys_distinct: "distinct (map fst g) \<Longrightarrow> distinct (Object_keys g)"
  by (auto simp: Object_keys_def Let_def)

lemma Object_keys_length: "length (Object_keys g) = length g"
proof -
  have "length (filter is_array_index (map fst g)) +
      length (filter (\<lambda>k. \<not> is_array_index k) (map fst g)) = length (map fst g)"
    by (rule sum_length_filter_compl)
  then show ?thesis by (simp add: Object_keys_def Let_def)
qed

lemma Object_keys_paths:
  "list_all (\<lambda>k. \<not> is_array_index k) (map fst g) \<Longrightarrow> Object_keys g = map fst g"
  by (simp add: Object_keys_def Let_def list_all_iff filter_empty_conv)

lemma Object_keys_index_first:
  "Object_keys [(''b.bean'', ds), (''7'', ds')] = [''7'', ''b.bean'']"
  by (simp add: Object_keys_def is_array_index_def is_digit_def parse_nat_def)

lemma lookup_distinct:
  "distinct (map fst g) \<Longrightarrow> (file, ds) \<in> set g \<Longrightarrow> lookup g file = ds"
  by (simp add: lookup_def)

lemma add_diagnostic_keys:
  "fst ` set (add_diagnostic file d g) = insert file (fst ` set g)"
proof (induction g)
  case Nil
  then show ?case by simp
next
  case (Cons kd g)
  obtain k ds where kd: "kd = (k, ds)" by (cases kd)
  show ?case
    using Cons.IH by (cases "k = file") (simp_all add: kd insert_commute)
qed

lemma add_diagnostic_distinct:
  "distinct (map fst g) \<Longrightarrow> distinct (map fst (add_diagnostic file d g))"
proof (induction g)
  case Nil
  then show ?case by simp
next
  case (Cons kd g)
  obtain k ds where kd: "kd = (k, ds)" by (cases kd)
  show ?case
  proof (cases "k = file")
    case True
    then show ?thesis using Cons.prems kd by simp
  next
    case False
    have "k \<notin> fst ` set (add_diagnostic file d g)"
      using Cons.prems kd False by (simp add: add_diagnostic_keys)
    then show ?thesis using Cons kd False by simp
  qed
qed

lemma provideDiagnostics_distinct: "distinct (map fst (provideDiagnostics errors flagged))"
proof -
  have "distinct (map fst g) \<Longrightarrow>
      distinct (map fst (foldl (\<lambda>g e. add_diagnostic (entry_file e) (to_diagnostic e) g) g es))"
    for g es
    by (induction es arbitrary: g) (simp_all add: add_diagnostic_distinct)
  then show ?thesis by (simp add: provideDiagnostics_def)
qed

lemma onDidSave_completed:
  "t \<noteq> [] \<Longrightarrow>
     onDidSaveTextDocument P dirname root (Completed (Some t)) =
       publish P root
         (provideDiagnostics (fst (validator_sections t)) (snd (validator_sections t)))"
  by (simp add: onDidSaveTextDocument_def runExternalCommand_def onValidatorOutput_def
      Let_def split_def)

lemma example_save_sections:
  "validator_sections example_save_text =
     (Some ''/home/u/ledger/sub/a.bean:10: Unbalanced entry'',
      Some ''/home/u/ledger/main.bean:12: Missing account'')"
  by (simp add: validator_sections_def js_split_def at_index_def example_save_text_def
      newline_def)

lemma example_save_group:
  "provideDiagnostics (Some ''/home/u/ledger/sub/a.bean:10: Unbalanced entry'')
       (Some ''/home/u/ledger/main.bean:12: Missing account'') =
     [(''/home/u/ledger/sub/a.bean'',
       [\<lparr> severity = SeverityError, range_line = 9, message = ''Unbalanced entry'' \<rparr>]),
      (''/home/u/ledger/main.bean'',
       [\<lparr> severity = SeverityWarning, range_line = 11, message = ''Missing account'' \<rparr>])]"
  by (simp add: provideDiagnostics_def parse_section_def newline_def parse_entry_def
      is_digit_def parse_nat_def to_diagnostic_def)

lemma example_save_keys:
  "Object_keys
     [(''/home/u/ledger/sub/a.bean'', ds), (''/home/u/ledger/main.bean'', ds')] =
     [''/home/u/ledger/sub/a.bean'', ''/home/u/ledger/main.bean'']"
  by (simp add: Object_keys_def is_array_index_def is_digit_def)

text \<open>
  C8. For every run of the validator that ends with a text, the save handler makes, for
  the group of diagnostics of that text, one \<^verbatim>\<open>sendDiagnostics\<close> call per file key and
  no other: the calls are those of the keys of the group, each key once, and the call of
  a key carries that file's whole list. The uri of the call is \<^verbatim>\<open>file://\<close>, then the path
  of the file's directory relative to the directory of the root beancount file, the
  separator and the file's base name.
\<close>

theorem save_publishes_one_call_per_file:
  assumes "t \<noteq> []"
    and "G = provideDiagnostics (fst (validator_sections t)) (snd (validator_sections t))"
  shows "onDidSaveTextDocument P dirname root (Completed (Some t)) =
           map (\<lambda>file.
                 SendDiagnostics
                   (''file://'' @ path_relative P (path_dirname P root) (path_dirname P file) @
                      path_sep P @ path_basename P file)
                   (lookup G file))
             (Object_keys G) \<and>
         distinct (Object_keys G) \<and>
         set (Object_keys G) = fst ` set G \<and>
         length (onDidSaveTextDocument P dirname root (Completed (Some t))) = length G \<and>
         (\<forall>(file, ds) \<in> set G. lookup G file = ds)"
proof -
  have d: "distinct (map fst G)"
    unfolding assms(2) by (rule provideDiagnostics_distinct)
  have calls: "onDidSaveTextDocument P dirname root (Completed (Some t)) = publish P root G"
    unfolding assms(2) by (rule onDidSave_completed [OF assms(1)])
  have shape: "publish P root G =
      map (\<lambda>file.
            SendDiagnostics
              (''file://'' @ path_relative P (path_dirname P root) (path_dirname P file) @
                 path_sep P @ path_basename P file)
              (lookup G file))
        (Object_keys G)"
    by (simp add: publish_def document_uri_def Let_def)
  have len: "length (publish P root G) = length G"
    by (simp add: publish_def Object_keys_length)
  have look: "\<forall>(file, ds) \<in> set G. lookup G file = ds"
    using d by (auto simp: lookup_distinct)
  show ?thesis
    using calls shape len look Object_keys_distinct [OF d] Object_keys_set [of G] by simp
qed

text \<open>
  Witness of C8: POSIX paths; a validator output about a file in a subdirectory of the
  root file's directory and about the root file itself.
\<close>

theorem save_publishes_one_call_per_file_witness:
  "example_save_text \<noteq> [] \<and>
   onDidSaveTextDocument (posix ''/'') ''/srv/out'' ''/home/u/ledger/main.bean''
       (Completed (Some example_save_text)) =
     [SendDiagnostics ''file://sub/a.bean''
        [\<lparr> severity = SeverityError, range_line = 9, message = ''Unbalanced entry'' \<rparr>],
      SendDiagnostics ''file:///main.bean''
        [\<lparr> severity = SeverityWarning, range_line = 11, message = ''Missing account'' \<rparr>]]"
proof -
  have ne: "example_save_text \<noteq> []"
    by (simp add: example_save_text_def)
  show ?thesis
    using save_publishes_one_call_per_file [OF ne refl, of "posix ''/''" "''/srv/out''"
        "''/home/u/ledger/main.bean''"] ne
    by (simp add: example_save_sections example_save_group example_save_keys lookup_def
        posix_def posix_dirname_def posix_basename_def posix_relative_def posix_resolve_def)
qed

text \<open>
  C9. For every run of the validator that fails (a spawn error, a non-zero exit or an
  error of the output stream), the handler's only effect is one message on the error
  channel; for a run that yields no text it has no effect at all. In both cases no
  diagnostics are published.
\<close>

theorem failed_run_publishes_nothing:
  "failure_of outcome \<noteq> None \<or> no_output outcome \<Longrightarrow>
     onDidSaveTextDocument P dirname root outcome =
       (case failure_of outcome of None \<Rightarrow> [] | Some str \<Rightarrow> [ConsoleError str]) \<and>
     filter is_publish (onDidSaveTextDocument P dirname root outcome) = []"
  by (cases outcome rule: no_output.cases)
     (auto simp: onDidSaveTextDocument_def runExternalCommand_def onValidatorOutput_def)

text \<open>
  Witness of C9: a non-zero exit, and a run with empty output.
\<close>

theorem failed_run_publishes_nothing_witness:
  "failure_of (NonZeroExit ''exit status 1'') \<noteq> None \<and>
   onDidSaveTextDocument (posix ''/'') ''/srv/out'' ''/home/u/ledger/main.bean''
     (NonZeroExit ''exit status 1'') = [ConsoleError ''exit status 1''] \<and>
   no_output (Completed (Some [])) \<and>
   onDidSaveTextDocument (posix ''/'') ''/srv/out'' ''/home/u/ledger/main.bean''
     (Completed (Some [])) = []"
  using failed_run_publishes_nothing
      [of "NonZeroExit ''exit status 1''" "posix ''/''" "''/srv/out''" "''/home/u/ledger/main.bean''"]
    failed_run_publishes_nothing
      [of "Completed (Some [])" "posix ''/''" "''/srv/out''" "''/home/u/ledger/main.bean''"]
  by simp

end
